theory Spec2Isabelle
  imports Complex_Main
begin

section \<open>Data model (src/models/types.ts)\<close>

text \<open>
  The TypeScript string-literal unions are datatypes. A JavaScript \<open>number\<close> is modelled
  as a rational: arithmetic is exact where doubles round, sums and products are written
  in the order of the source, and the non-finite values that JavaScript produces on a
  division by zero are written out where the source divides. Array indices
  (\<open>partIndex\<close>, \<open>noteIndex\<close>) are natural numbers. An optional property is an
  \<open>option\<close>, \<open>None\<close> standing for an absent property.
\<close>

datatype Pitch = C | D | E | F | G | A | H

datatype Octave = Lower | Middle | Upper

datatype Duration = Whole | Half | Quarter | Eighth | Sixteenth

datatype RenderingMode = Staff | Circles

datatype Clef = Treble | Bass

record TimeSignature =
  beats :: rat
  beatValue :: rat

text \<open>
  \<open>Note\<close> carries pitch, octave, duration, the optional lyric and the optional accented
  flag, in this order; \<open>Rest\<close> carries its duration only. The \<open>type\<close> discriminant of
  the source is the constructor.
\<close>

datatype NoteOrRest =
  Note Pitch Octave Duration "string option" "bool option"
| Rest Duration

fun duration :: "NoteOrRest \<Rightarrow> Duration" where
  "duration (Note p oc d ly ac) = d"
| "duration (Rest d) = d"

record Part =
  name :: "string option"
  part_notes :: "NoteOrRest list"

record Score =
  title :: string
  tempo :: "rat option"
  renderingMode :: RenderingMode
  timeSignature :: TimeSignature
  clef :: Clef
  parts :: "Part list"

section \<open>Colour mapping (src/constants/colors.ts)\<close>

fun ULWILA_COLORS :: "Pitch \<Rightarrow> string" where
  "ULWILA_COLORS C = ''#1A1A1A''"
| "ULWILA_COLORS D = ''#8B4513''"
| "ULWILA_COLORS E = ''#0000CD''"
| "ULWILA_COLORS F = ''#228B22''"
| "ULWILA_COLORS G = ''#DC143C''"
| "ULWILA_COLORS A = ''#FF8C00''"
| "ULWILA_COLORS H = ''#FFD700''"

text \<open>The partial record \<open>NEXT_PITCH\<close>: a missing key reads as \<open>undefined\<close>.\<close>

fun NEXT_PITCH :: "Pitch \<Rightarrow> Pitch option" where
  "NEXT_PITCH C = Some D"
| "NEXT_PITCH D = Some E"
| "NEXT_PITCH F = Some G"
| "NEXT_PITCH G = Some A"
| "NEXT_PITCH A = Some H"
| "NEXT_PITCH E = None"
| "NEXT_PITCH H = None"

record ColorPair =
  left :: string
  right :: string

definition getAccentedColors :: "Pitch \<Rightarrow> ColorPair" where
  "getAccentedColors pitch =
     (case NEXT_PITCH pitch of
        None \<Rightarrow> \<lparr>left = ULWILA_COLORS pitch, right = ULWILA_COLORS pitch\<rparr>
      | Some nextPitch \<Rightarrow> \<lparr>left = ULWILA_COLORS pitch, right = ULWILA_COLORS nextPitch\<rparr>)"

section \<open>Staff layout (renderers/staffLayout)\<close>

subsection \<open>Pitch to staff position\<close>

fun treblePitchOffsets :: "Pitch \<Rightarrow> int" where
  "treblePitchOffsets C = -2"
| "treblePitchOffsets D = -1"
| "treblePitchOffsets E = 0"
| "treblePitchOffsets F = 1"
| "treblePitchOffsets G = 2"
| "treblePitchOffsets A = 3"
| "treblePitchOffsets H = 4"

fun bassPitchOffsets :: "Pitch \<Rightarrow> int" where
  "bassPitchOffsets C = -4"
| "bassPitchOffsets D = -3"
| "bassPitchOffsets E = -2"
| "bassPitchOffsets F = -1"
| "bassPitchOffsets G = 0"
| "bassPitchOffsets A = 1"
| "bassPitchOffsets H = 2"

fun octaveOffsets :: "Octave \<Rightarrow> int" where
  "octaveOffsets Lower = 0"
| "octaveOffsets Middle = 7"
| "octaveOffsets Upper = 14"

definition pitchToStaffPosition :: "Pitch \<Rightarrow> Octave \<Rightarrow> Clef \<Rightarrow> int" where
  "pitchToStaffPosition pitch oct cl =
     (let pitchOffsets = (if cl = Bass then bassPitchOffsets else treblePitchOffsets)
      in pitchOffsets pitch + octaveOffsets oct)"

subsection \<open>Configuration\<close>

record LayoutConfig =
  canvasWidth :: rat
  staffLineSpacing :: rat
  noteSpacing :: rat
  marginLeft :: rat
  marginTop :: rat
  staffHeight :: rat
  systemSpacing :: rat

text \<open>\<open>Partial<LayoutConfig>\<close>: every property is a number or absent. An omitted
  \<open>config\<close> argument is the record with every property absent.\<close>

record PartialLayoutConfig =
  canvasWidth_opt :: "rat option"
  staffLineSpacing_opt :: "rat option"
  noteSpacing_opt :: "rat option"
  marginLeft_opt :: "rat option"
  marginTop_opt :: "rat option"
  staffHeight_opt :: "rat option"
  systemSpacing_opt :: "rat option"

definition DEFAULT_CONFIG :: LayoutConfig where
  "DEFAULT_CONFIG =
     \<lparr>canvasWidth = 800, staffLineSpacing = 10, noteSpacing = 30, marginLeft = 60,
      marginTop = 40, staffHeight = 40, systemSpacing = 80\<rparr>"

text \<open>The object spread \<open>{ ...DEFAULT_CONFIG, ...config }\<close>.\<close>

definition spreadLayoutConfig :: "LayoutConfig \<Rightarrow> PartialLayoutConfig \<Rightarrow> LayoutConfig" where
  "spreadLayoutConfig d c =
     \<lparr>canvasWidth = (case canvasWidth_opt c of None \<Rightarrow> canvasWidth d | Some v \<Rightarrow> v),
      staffLineSpacing = (case staffLineSpacing_opt c of None \<Rightarrow> staffLineSpacing d | Some v \<Rightarrow> v),
      noteSpacing = (case noteSpacing_opt c of None \<Rightarrow> noteSpacing d | Some v \<Rightarrow> v),
      marginLeft = (case marginLeft_opt c of None \<Rightarrow> marginLeft d | Some v \<Rightarrow> v),
      marginTop = (case marginTop_opt c of None \<Rightarrow> marginTop d | Some v \<Rightarrow> v),
      staffHeight = (case staffHeight_opt c of None \<Rightarrow> staffHeight d | Some v \<Rightarrow> v),
      systemSpacing = (case systemSpacing_opt c of None \<Rightarrow> systemSpacing d | Some v \<Rightarrow> v)\<rparr>"

subsection \<open>Layout artifacts\<close>

text \<open>The fields \<open>x\<close>, \<open>y\<close> of \<open>NoteLayout\<close> are \<open>note_x\<close>, \<open>note_y\<close> here, and the field
  \<open>notes\<close> of \<open>StaffSystem\<close> is \<open>sys_notes\<close>.\<close>

record NoteLayout =
  note_x :: rat
  note_y :: int
  noteIndex :: nat
  partIndex :: nat
  isRest :: bool
  octave :: "Octave option"

record StaffSystem =
  startX :: rat
  startY :: rat
  sys_notes :: "NoteLayout list"
  barLines :: "rat list"

record StaffLayout =
  systems :: "StaffSystem list"
  config :: LayoutConfig

subsection \<open>Beats\<close>

fun DURATION_TO_BEATS :: "Duration \<Rightarrow> rat" where
  "DURATION_TO_BEATS Whole = 4"
| "DURATION_TO_BEATS Half = 2"
| "DURATION_TO_BEATS Quarter = 1"
| "DURATION_TO_BEATS Eighth = 0.5"
| "DURATION_TO_BEATS Sixteenth = 0.25"

text \<open>
  \<open>beats * (4 / beatValue)\<close> is not finite when \<open>beatValue\<close> is zero: \<open>4 / 0\<close> is
  \<open>Infinity\<close>, and its product with \<open>beats\<close> is \<open>Infinity\<close>, \<open>-Infinity\<close> or \<open>NaN\<close>
  as \<open>beats\<close> is positive, negative or zero.
\<close>

datatype Threshold = Finite rat | PosInfinity | NegInfinity | NotANumber

definition beatsPerMeasure :: "TimeSignature \<Rightarrow> Threshold" where
  "beatsPerMeasure ts =
     (if beatValue ts = 0
      then (if 0 < beats ts then PosInfinity else if beats ts < 0 then NegInfinity else NotANumber)
      else Finite (beats ts * (4 / beatValue ts)))"

text \<open>The comparison \<open>currentBeats >= beatsPerMeasure\<close>.\<close>

fun reaches :: "rat \<Rightarrow> Threshold \<Rightarrow> bool" where
  "reaches b (Finite t) = (t \<le> b)"
| "reaches b PosInfinity = False"
| "reaches b NegInfinity = True"
| "reaches b NotANumber = False"

subsection \<open>The layout loop\<close>

text \<open>All notes of all parts, in order, each with its part index and note index.\<close>

definition allNotes :: "Score \<Rightarrow> (NoteOrRest \<times> nat \<times> nat) list" where
  "allNotes score =
     concat (map (\<lambda>(pidx, part). map (\<lambda>(nidx, note). (note, pidx, nidx)) (enumerate 0 (part_notes part)))
                 (enumerate 0 (parts score)))"

text \<open>The variables the loop body updates; \<open>done_systems\<close> is the array \<open>systems\<close>.\<close>

record LayoutState =
  done_systems :: "StaffSystem list"
  currentSystem :: StaffSystem
  currentX :: rat
  currentBeats :: rat

definition layoutNote ::
  "LayoutConfig \<Rightarrow> Score \<Rightarrow> Threshold \<Rightarrow> LayoutState \<Rightarrow> NoteOrRest \<times> nat \<times> nat \<Rightarrow> LayoutState" where
  "layoutNote fullConfig score bpm st entry =
     (case entry of (note, pidx, nidx) \<Rightarrow>
       let rest = (case note of Rest d \<Rightarrow> True | Note p oc d ly ac \<Rightarrow> False);
           y = (case note of Rest d \<Rightarrow> 4 | Note p oc d ly ac \<Rightarrow> pitchToStaffPosition p oc (clef score));
           pushed = (currentSystem st)\<lparr>sys_notes := sys_notes (currentSystem st) @
                      [\<lparr>note_x = currentX st, note_y = y, noteIndex = nidx, partIndex = pidx, isRest = rest,
                        octave = (case note of Rest d \<Rightarrow> None | Note p oc d ly ac \<Rightarrow> Some oc)\<rparr>]\<rparr>;
           noteBeats = DURATION_TO_BEATS (duration note);
           beats1 = currentBeats st + noteBeats;
           x1 = currentX st + noteSpacing fullConfig;
           barred = (if reaches beats1 bpm
                     then pushed\<lparr>barLines := barLines pushed @ [x1 - noteSpacing fullConfig / 2]\<rparr>
                     else pushed);
           beats2 = (if reaches beats1 bpm then 0 else beats1)
       in if canvasWidth fullConfig - marginLeft fullConfig < x1
          then \<lparr>done_systems = done_systems st @ [barred],
                currentSystem = \<lparr>startX = marginLeft fullConfig,
                                  startY = startY barred + staffHeight fullConfig + systemSpacing fullConfig,
                                  sys_notes = [], barLines = []\<rparr>,
                currentX = marginLeft fullConfig,
                currentBeats = beats2\<rparr>
          else \<lparr>done_systems = done_systems st, currentSystem = barred,
                currentX = x1, currentBeats = beats2\<rparr>)"

definition initialLayoutState :: "LayoutConfig \<Rightarrow> LayoutState" where
  "initialLayoutState fullConfig =
     \<lparr>done_systems = [],
      currentSystem = \<lparr>startX = marginLeft fullConfig, startY = marginTop fullConfig,
                        sys_notes = [], barLines = []\<rparr>,
      currentX = marginLeft fullConfig,
      currentBeats = 0\<rparr>"

definition computeLayout :: "Score \<Rightarrow> PartialLayoutConfig \<Rightarrow> StaffLayout" where
  "computeLayout score cfg =
     (let fullConfig = spreadLayoutConfig DEFAULT_CONFIG cfg;
          st = foldl (layoutNote fullConfig score (beatsPerMeasure (timeSignature score)))
                     (initialLayoutState fullConfig) (allNotes score);
          systems1 = (if 0 < length (sys_notes (currentSystem st))
                      then done_systems st @ [currentSystem st] else done_systems st);
          systems2 = (if length systems1 = 0 then systems1 @ [currentSystem st] else systems1)
      in \<lparr>systems = systems2, config = fullConfig\<rparr>)"

section \<open>Circles layout (src/renderers/circlesLayout.ts)\<close>

text \<open>
  Names that the staff layout module also uses carry a prefix here: the configuration
  fields \<open>canvasWidth\<close>, \<open>marginLeft\<close>, \<open>marginTop\<close> are \<open>c_canvasWidth\<close>,
  \<open>c_marginLeft\<close>, \<open>c_marginTop\<close>; the \<open>CircleLayout\<close> fields \<open>partIndex\<close>,
  \<open>noteIndex\<close>, \<open>isRest\<close>, \<open>octave\<close> are \<open>c_partIndex\<close>, \<open>c_noteIndex\<close>, \<open>c_isRest\<close>,
  \<open>c_octave\<close>; the field \<open>startY\<close> of \<open>CircleRow\<close> is \<open>row_startY\<close>. The elements of
  \<open>subCircles\<close> are objects with exactly the properties \<open>cx\<close>, \<open>cy\<close>, \<open>radius\<close>,
  here \<open>sub_cx\<close>, \<open>sub_cy\<close>, \<open>sub_radius\<close>.
\<close>

record CirclesLayoutConfig =
  c_canvasWidth :: rat
  circleSize :: rat
  circleSpacing :: rat
  c_marginLeft :: rat
  c_marginTop :: rat
  rowSpacing :: rat
  lyricOffset :: rat

record PartialCirclesLayoutConfig =
  c_canvasWidth_opt :: "rat option"
  circleSize_opt :: "rat option"
  circleSpacing_opt :: "rat option"
  c_marginLeft_opt :: "rat option"
  c_marginTop_opt :: "rat option"
  rowSpacing_opt :: "rat option"
  lyricOffset_opt :: "rat option"

definition DEFAULT_CIRCLES_CONFIG :: CirclesLayoutConfig where
  "DEFAULT_CIRCLES_CONFIG =
     \<lparr>c_canvasWidth = 800, circleSize = 40, circleSpacing = 50, c_marginLeft = 20,
      c_marginTop = 30, rowSpacing = 80, lyricOffset = 25\<rparr>"

definition spreadCirclesConfig ::
  "CirclesLayoutConfig \<Rightarrow> PartialCirclesLayoutConfig \<Rightarrow> CirclesLayoutConfig" where
  "spreadCirclesConfig d c =
     \<lparr>c_canvasWidth = (case c_canvasWidth_opt c of None \<Rightarrow> c_canvasWidth d | Some v \<Rightarrow> v),
      circleSize = (case circleSize_opt c of None \<Rightarrow> circleSize d | Some v \<Rightarrow> v),
      circleSpacing = (case circleSpacing_opt c of None \<Rightarrow> circleSpacing d | Some v \<Rightarrow> v),
      c_marginLeft = (case c_marginLeft_opt c of None \<Rightarrow> c_marginLeft d | Some v \<Rightarrow> v),
      c_marginTop = (case c_marginTop_opt c of None \<Rightarrow> c_marginTop d | Some v \<Rightarrow> v),
      rowSpacing = (case rowSpacing_opt c of None \<Rightarrow> rowSpacing d | Some v \<Rightarrow> v),
      lyricOffset = (case lyricOffset_opt c of None \<Rightarrow> lyricOffset d | Some v \<Rightarrow> v)\<rparr>"

record SubCircle =
  sub_cx :: rat
  sub_cy :: rat
  sub_radius :: rat

record CircleLayout =
  cx :: rat
  cy :: rat
  radius :: rat
  c_partIndex :: nat
  c_noteIndex :: nat
  c_isRest :: bool
  c_octave :: "Octave option"
  subCircles :: "SubCircle list option"
  lyric :: "string option"

record CircleRow =
  row_startY :: rat
  circles :: "CircleLayout list"

record CirclesLayout =
  rows :: "CircleRow list"
  c_config :: CirclesLayoutConfig
  totalHeight :: rat

fun durationToPositions :: "Duration \<Rightarrow> rat" where
  "durationToPositions Whole = 4"
| "durationToPositions Half = 2"
| "durationToPositions Quarter = 1"
| "durationToPositions Eighth = 1"
| "durationToPositions Sixteenth = 1"

text \<open>
  \<open>computeNoteCircle\<close> reads \<open>duration\<close>, \<open>octave\<close> and \<open>lyric\<close> of its note argument;
  they are its first three arguments here. The \<open>default\<close> branches of the two
  \<open>switch\<close> statements on the duration are not reached by a value of the type.
\<close>

fun computeNoteCircle ::
  "Duration \<Rightarrow> Octave \<Rightarrow> string option \<Rightarrow> rat \<Rightarrow> rat \<Rightarrow> rat \<Rightarrow> CirclesLayoutConfig \<Rightarrow> nat \<Rightarrow> nat
     \<Rightarrow> CircleLayout" where
  "computeNoteCircle Whole oc ly start_x row_y baseRadius cfg pidx nidx =
     \<lparr>cx = start_x + (4 - 1) * circleSpacing cfg / 2, cy = row_y, radius = baseRadius * 1.8,
      c_partIndex = pidx, c_noteIndex = nidx, c_isRest = False, c_octave = Some oc,
      subCircles = None, lyric = ly\<rparr>"
| "computeNoteCircle Half oc ly start_x row_y baseRadius cfg pidx nidx =
     \<lparr>cx = start_x + (2 - 1) * circleSpacing cfg / 2, cy = row_y, radius = baseRadius * 1.4,
      c_partIndex = pidx, c_noteIndex = nidx, c_isRest = False, c_octave = Some oc,
      subCircles = None, lyric = ly\<rparr>"
| "computeNoteCircle Quarter oc ly start_x row_y baseRadius cfg pidx nidx =
     \<lparr>cx = start_x, cy = row_y, radius = baseRadius,
      c_partIndex = pidx, c_noteIndex = nidx, c_isRest = False, c_octave = Some oc,
      subCircles = None, lyric = ly\<rparr>"
| "computeNoteCircle Eighth oc ly start_x row_y baseRadius cfg pidx nidx =
     (let smallRadius = baseRadius * 0.6;
          gap = smallRadius * 2.2
      in \<lparr>cx = start_x, cy = row_y, radius = smallRadius,
           c_partIndex = pidx, c_noteIndex = nidx, c_isRest = False, c_octave = Some oc,
           subCircles = Some
             [\<lparr>sub_cx = start_x - gap / 2, sub_cy = row_y, sub_radius = smallRadius\<rparr>,
              \<lparr>sub_cx = start_x + gap / 2, sub_cy = row_y, sub_radius = smallRadius\<rparr>],
           lyric = ly\<rparr>)"
| "computeNoteCircle Sixteenth oc ly start_x row_y baseRadius cfg pidx nidx =
     (let tinyRadius = baseRadius * 0.4;
          gap = tinyRadius * 2.4
      in \<lparr>cx = start_x, cy = row_y, radius = tinyRadius,
           c_partIndex = pidx, c_noteIndex = nidx, c_isRest = False, c_octave = Some oc,
           subCircles = Some
             [\<lparr>sub_cx = start_x - gap / 2, sub_cy = row_y - gap / 2, sub_radius = tinyRadius\<rparr>,
              \<lparr>sub_cx = start_x + gap / 2, sub_cy = row_y - gap / 2, sub_radius = tinyRadius\<rparr>,
              \<lparr>sub_cx = start_x - gap / 2, sub_cy = row_y + gap / 2, sub_radius = tinyRadius\<rparr>,
              \<lparr>sub_cx = start_x + gap / 2, sub_cy = row_y + gap / 2, sub_radius = tinyRadius\<rparr>],
           lyric = ly\<rparr>)"

text \<open>The variables the loop body updates; \<open>done_rows\<close> is the array \<open>rows\<close>.\<close>

record CirclesState =
  done_rows :: "CircleRow list"
  currentRow :: "CircleLayout list"
  c_currentX :: rat
  currentRowY :: rat

definition circlesNote ::
  "CirclesLayoutConfig \<Rightarrow> rat \<Rightarrow> rat \<Rightarrow> CirclesState \<Rightarrow> NoteOrRest \<times> nat \<times> nat \<Rightarrow> CirclesState" where
  "circlesNote fullConfig baseRadius maxX st entry =
     (case entry of (note, pidx, nidx) \<Rightarrow>
       let positions = durationToPositions (duration note);
           totalWidth = positions * circleSpacing fullConfig;
           st1 = (if maxX < c_currentX st + totalWidth - circleSpacing fullConfig / 2
                     \<and> 0 < length (currentRow st)
                  then \<lparr>done_rows = done_rows st @ [\<lparr>row_startY = currentRowY st, circles = currentRow st\<rparr>],
                        currentRow = [],
                        c_currentX = c_marginLeft fullConfig + baseRadius,
                        currentRowY = currentRowY st + rowSpacing fullConfig\<rparr>
                  else st)
       in (case note of
             Rest d \<Rightarrow>
               st1\<lparr>currentRow := currentRow st1 @
                      [\<lparr>cx = c_currentX st1 + (totalWidth - circleSpacing fullConfig) / 2,
                        cy = currentRowY st1, radius = 0, c_partIndex = pidx, c_noteIndex = nidx,
                        c_isRest = True, c_octave = None, subCircles = None, lyric = None\<rparr>],
                   c_currentX := c_currentX st1 + totalWidth\<rparr>
           | Note p oc d ly ac \<Rightarrow>
               st1\<lparr>currentRow := currentRow st1 @
                      [computeNoteCircle d oc ly (c_currentX st1) (currentRowY st1) baseRadius
                         fullConfig pidx nidx],
                   c_currentX := c_currentX st1 + totalWidth\<rparr>))"

definition initialCirclesState :: "CirclesLayoutConfig \<Rightarrow> rat \<Rightarrow> CirclesState" where
  "initialCirclesState fullConfig baseRadius =
     \<lparr>done_rows = [], currentRow = [],
      c_currentX = c_marginLeft fullConfig + baseRadius,
      currentRowY = c_marginTop fullConfig + baseRadius\<rparr>"

definition computeCirclesLayout :: "Score \<Rightarrow> PartialCirclesLayoutConfig \<Rightarrow> CirclesLayout" where
  "computeCirclesLayout score cfg =
     (let fullConfig = spreadCirclesConfig DEFAULT_CIRCLES_CONFIG cfg;
          baseRadius = circleSize fullConfig / 2;
          maxX = c_canvasWidth fullConfig - c_marginLeft fullConfig - baseRadius;
          st = foldl (circlesNote fullConfig baseRadius maxX)
                     (initialCirclesState fullConfig baseRadius) (allNotes score);
          rows1 = (if 0 < length (currentRow st)
                   then done_rows st @ [\<lparr>row_startY = currentRowY st, circles = currentRow st\<rparr>]
                   else done_rows st);
          rows2 = (if length rows1 = 0
                   then rows1 @ [\<lparr>row_startY = currentRowY st, circles = []\<rparr>] else rows1);
          lastRow = last rows2
      in \<lparr>rows = rows2, c_config = fullConfig,
          totalHeight = row_startY lastRow + baseRadius + lyricOffset fullConfig + 20\<rparr>)"

section \<open>JSON persistence (src/export/jsonPersistence.ts)\<close>

text \<open>
  A parsed JSON document. An object keeps its members in text order; where a key occurs
  twice \<open>JSON.parse\<close> keeps the last occurrence, so a property is read from the end.
\<close>

datatype json =
  JNull
| JBool bool
| JNumber rat
| JString string
| JArray "json list"
| JObject "(string \<times> json) list"

text \<open>Reading a property: \<open>None\<close> is \<open>undefined\<close>. None of the properties read by the
  loader exists on an array or on a primitive.\<close>

fun getProp :: "json \<Rightarrow> string \<Rightarrow> json option" where
  "getProp (JObject kvs) k = map_of (rev kvs) k"
| "getProp j k = None"

text \<open>\<open>typeof v === "object" && v !== null\<close>\<close>

fun isObjectLike :: "json \<Rightarrow> bool" where
  "isObjectLike (JObject kvs) = True"
| "isObjectLike (JArray vs) = True"
| "isObjectLike j = False"

fun pitchName :: "Pitch \<Rightarrow> string" where
  "pitchName C = ''C''"
| "pitchName D = ''D''"
| "pitchName E = ''E''"
| "pitchName F = ''F''"
| "pitchName G = ''G''"
| "pitchName A = ''A''"
| "pitchName H = ''H''"

fun octaveName :: "Octave \<Rightarrow> string" where
  "octaveName Lower = ''lower''"
| "octaveName Middle = ''middle''"
| "octaveName Upper = ''upper''"

fun durationName :: "Duration \<Rightarrow> string" where
  "durationName Whole = ''whole''"
| "durationName Half = ''half''"
| "durationName Quarter = ''quarter''"
| "durationName Eighth = ''eighth''"
| "durationName Sixteenth = ''sixteenth''"

fun renderingModeName :: "RenderingMode \<Rightarrow> string" where
  "renderingModeName Staff = ''staff''"
| "renderingModeName Circles = ''circles''"

fun clefName :: "Clef \<Rightarrow> string" where
  "clefName Treble = ''treble''"
| "clefName Bass = ''bass''"

definition VALID_PITCHES :: "Pitch list" where
  "VALID_PITCHES = [C, D, E, F, G, A, H]"

definition VALID_OCTAVES :: "Octave list" where
  "VALID_OCTAVES = [Lower, Middle, Upper]"

definition VALID_DURATIONS :: "Duration list" where
  "VALID_DURATIONS = [Whole, Half, Quarter, Eighth, Sixteenth]"

definition VALID_RENDERING_MODES :: "RenderingMode list" where
  "VALID_RENDERING_MODES = [Staff, Circles]"

definition VALID_CLEFS :: "Clef list" where
  "VALID_CLEFS = [Treble, Bass]"

text \<open>
  \<open>typeof v === "string" && VALID.includes(v)\<close>, followed by the cast of \<open>v\<close> to the
  union type: the member of the valid list that has this name, if any.
\<close>

fun validName :: "('a \<Rightarrow> string) \<Rightarrow> 'a list \<Rightarrow> json option \<Rightarrow> 'a option" where
  "validName nm valid (Some (JString s)) = find (\<lambda>v. nm v = s) valid"
| "validName nm valid j = None"

text \<open>
  One constructor for each \<open>throw\<close> of the loader. The indices and the offending value
  that the message interpolates are the arguments; the time signature messages are
  the constant texts \<open>Score must have a "timeSignature" object\<close> and
  \<open>timeSignature must have numeric "beats" and "beatValue"\<close>.
\<close>

datatype load_error =
  InvalidJSONFile
| ScoreNotObject
| TitleNotString
| InvalidRenderingMode "json option"
| InvalidClef "json option"
| TimeSignatureNotObject
| TimeSignatureNotNumeric
| PartsNotArray
| TempoNotNumber
| PartNotObject nat
| PartNotesNotArray nat
| PartNameNotString nat
| EntryNotObject nat nat
| InvalidPitch nat nat "json option"
| InvalidOctave nat nat "json option"
| InvalidDuration nat nat "json option"
| LyricNotString nat nat
| AccentedNotBoolean nat nat
| InvalidType nat nat "json option"

definition validateNote :: "json \<Rightarrow> nat \<Rightarrow> nat \<Rightarrow> load_error + NoteOrRest" where
  "validateNote obj pidx nidx =
     (case validName pitchName VALID_PITCHES (getProp obj ''pitch'') of
        None \<Rightarrow> Inl (InvalidPitch pidx nidx (getProp obj ''pitch''))
      | Some p \<Rightarrow>
     (case validName octaveName VALID_OCTAVES (getProp obj ''octave'') of
        None \<Rightarrow> Inl (InvalidOctave pidx nidx (getProp obj ''octave''))
      | Some oc \<Rightarrow>
     (case validName durationName VALID_DURATIONS (getProp obj ''duration'') of
        None \<Rightarrow> Inl (InvalidDuration pidx nidx (getProp obj ''duration''))
      | Some d \<Rightarrow>
     (case getProp obj ''lyric'' of
        Some (JString l) \<Rightarrow>
          (case getProp obj ''accented'' of
             Some (JBool b) \<Rightarrow> Inr (Note p oc d (Some l) (Some b))
           | None \<Rightarrow> Inr (Note p oc d (Some l) None)
           | Some other \<Rightarrow> Inl (AccentedNotBoolean pidx nidx))
      | None \<Rightarrow>
          (case getProp obj ''accented'' of
             Some (JBool b) \<Rightarrow> Inr (Note p oc d None (Some b))
           | None \<Rightarrow> Inr (Note p oc d None None)
           | Some other \<Rightarrow> Inl (AccentedNotBoolean pidx nidx))
      | Some other \<Rightarrow> Inl (LyricNotString pidx nidx)))))"

definition validateNoteOrRest :: "json \<Rightarrow> nat \<Rightarrow> nat \<Rightarrow> load_error + NoteOrRest" where
  "validateNoteOrRest entry pidx nidx =
     (if \<not> isObjectLike entry then Inl (EntryNotObject pidx nidx)
      else if getProp entry ''type'' = Some (JString ''note'') then validateNote entry pidx nidx
      else if getProp entry ''type'' = Some (JString ''rest'') then
        (case validName durationName VALID_DURATIONS (getProp entry ''duration'') of
           None \<Rightarrow> Inl (InvalidDuration pidx nidx (getProp entry ''duration''))
         | Some d \<Rightarrow> Inr (Rest d))
      else Inl (InvalidType pidx nidx (getProp entry ''type'')))"

text \<open>\<open>xs.map((v, i) => f(v, i))\<close> where \<open>f\<close> may throw: the first error, in index
  order, is the result.\<close>

fun mapIndexed :: "('a \<Rightarrow> nat \<Rightarrow> 'e + 'b) \<Rightarrow> 'a list \<Rightarrow> nat \<Rightarrow> 'e + 'b list" where
  "mapIndexed f [] i = Inr []"
| "mapIndexed f (v # vs) i =
     (case f v i of
        Inl e \<Rightarrow> Inl e
      | Inr w \<Rightarrow> (case mapIndexed f vs (Suc i) of Inl e \<Rightarrow> Inl e | Inr ws \<Rightarrow> Inr (w # ws)))"

definition validatePart :: "json \<Rightarrow> nat \<Rightarrow> load_error + Part" where
  "validatePart entry index =
     (if \<not> isObjectLike entry then Inl (PartNotObject index)
      else (case getProp entry ''notes'' of
        Some (JArray ns) \<Rightarrow>
          (case getProp entry ''name'' of
             None \<Rightarrow>
               (case mapIndexed (\<lambda>n ni. validateNoteOrRest n index ni) ns 0 of
                  Inl e \<Rightarrow> Inl e
                | Inr vs \<Rightarrow> Inr \<lparr>name = None, part_notes = vs\<rparr>)
           | Some (JString nm) \<Rightarrow>
               (case mapIndexed (\<lambda>n ni. validateNoteOrRest n index ni) ns 0 of
                  Inl e \<Rightarrow> Inl e
                | Inr vs \<Rightarrow> Inr \<lparr>name = Some nm, part_notes = vs\<rparr>)
           | Some other \<Rightarrow> Inl (PartNameNotString index))
      | other \<Rightarrow> Inl (PartNotesNotArray index)))"

text \<open>
  \<open>loadScore\<close> on the result of \<open>JSON.parse\<close>: \<open>None\<close> when the text of the file does
  not parse. A rejected promise is the \<open>Inl\<close> result.
\<close>

definition loadScore :: "json option \<Rightarrow> load_error + Score" where
  "loadScore parsed =
     (case parsed of
        None \<Rightarrow> Inl InvalidJSONFile
      | Some (JObject kvs) \<Rightarrow>
         (let obj = JObject kvs in
          case getProp obj ''title'' of
            Some (JString ttl) \<Rightarrow>
             (case validName renderingModeName VALID_RENDERING_MODES (getProp obj ''renderingMode'') of
                None \<Rightarrow> Inl (InvalidRenderingMode (getProp obj ''renderingMode''))
              | Some mode \<Rightarrow>
             (case validName clefName VALID_CLEFS (getProp obj ''clef'') of
                None \<Rightarrow> Inl (InvalidClef (getProp obj ''clef''))
              | Some cl \<Rightarrow>
             (case getProp obj ''timeSignature'' of
                None \<Rightarrow> Inl TimeSignatureNotObject
              | Some ts \<Rightarrow>
             (if \<not> isObjectLike ts then Inl TimeSignatureNotObject
              else case (getProp ts ''beats'', getProp ts ''beatValue'') of
                (Some (JNumber b), Some (JNumber v)) \<Rightarrow>
                 (case getProp obj ''parts'' of
                    Some (JArray ps) \<Rightarrow>
                     (case mapIndexed validatePart ps 0 of
                        Inl e \<Rightarrow> Inl e
                      | Inr vps \<Rightarrow>
                         (case getProp obj ''tempo'' of
                            None \<Rightarrow>
                              Inr \<lparr>title = ttl, tempo = None, renderingMode = mode,
                                   timeSignature = \<lparr>beats = b, beatValue = v\<rparr>,
                                   clef = cl, parts = vps\<rparr>
                          | Some (JNumber t) \<Rightarrow>
                              Inr \<lparr>title = ttl, tempo = Some t, renderingMode = mode,
                                   timeSignature = \<lparr>beats = b, beatValue = v\<rparr>,
                                   clef = cl, parts = vps\<rparr>
                          | Some other \<Rightarrow> Inl TempoNotNumber))
                  | other \<Rightarrow> Inl PartsNotArray)
              | other \<Rightarrow> Inl TimeSignatureNotNumeric))))
          | other \<Rightarrow> Inl TitleNotString)
      | Some other \<Rightarrow> Inl ScoreNotObject)"

text \<open>
  \<open>saveScore\<close> writes \<open>JSON.stringify(score, null, 2)\<close>. The following is the document
  that \<open>JSON.parse\<close> reads back from that text: every present property of the value
  becomes a member, an absent optional property is left out.
\<close>

fun optionalMember :: "string \<Rightarrow> ('a \<Rightarrow> json) \<Rightarrow> 'a option \<Rightarrow> (string \<times> json) list" where
  "optionalMember k f None = []"
| "optionalMember k f (Some v) = [(k, f v)]"

fun jsonOfNote :: "NoteOrRest \<Rightarrow> json" where
  "jsonOfNote (Note p oc d ly ac) =
     JObject ([(''type'', JString ''note''), (''pitch'', JString (pitchName p)),
               (''octave'', JString (octaveName oc)), (''duration'', JString (durationName d))]
              @ optionalMember ''lyric'' JString ly @ optionalMember ''accented'' JBool ac)"
| "jsonOfNote (Rest d) =
     JObject [(''type'', JString ''rest''), (''duration'', JString (durationName d))]"

definition jsonOfPart :: "Part \<Rightarrow> json" where
  "jsonOfPart p =
     JObject (optionalMember ''name'' JString (name p)
              @ [(''notes'', JArray (map jsonOfNote (part_notes p)))])"

definition jsonOfScore :: "Score \<Rightarrow> json" where
  "jsonOfScore sc =
     JObject ([(''title'', JString (title sc))]
              @ optionalMember ''tempo'' JNumber (tempo sc)
              @ [(''renderingMode'', JString (renderingModeName (renderingMode sc))),
                 (''timeSignature'',
                    JObject [(''beats'', JNumber (beats (timeSignature sc))),
                             (''beatValue'', JNumber (beatValue (timeSignature sc)))]),
                 (''clef'', JString (clefName (clef sc))),
                 (''parts'', JArray (map jsonOfPart (parts sc)))])"

section \<open>Abstractions used in the statements\<close>

subsection \<open>Staff layout\<close>

text \<open>The note layouts placed so far, over the finished systems and the current one,
  and likewise the bar lines.\<close>

definition laid :: "LayoutState \<Rightarrow> NoteLayout list" where
  "laid st = concat (map sys_notes (done_systems st)) @ sys_notes (currentSystem st)"


text \<open>What a note layout says about its note apart from the horizontal position, and
  what the loop body computes for an entry of the flattened sequence.\<close>

definition noteView :: "NoteLayout \<Rightarrow> nat \<times> nat \<times> int \<times> bool \<times> Octave option" where
  "noteView n = (partIndex n, noteIndex n, note_y n, isRest n, octave n)"

fun entryView :: "Clef \<Rightarrow> NoteOrRest \<times> nat \<times> nat \<Rightarrow> nat \<times> nat \<times> int \<times> bool \<times> Octave option" where
  "entryView cl (Note p oc d ly ac, pidx, nidx) = (pidx, nidx, pitchToStaffPosition p oc cl, False, Some oc)"
| "entryView cl (Rest d, pidx, nidx) = (pidx, nidx, 4, True, None)"



text \<open>The state of the loop after the last note.\<close>

definition finalState :: "Score \<Rightarrow> PartialLayoutConfig \<Rightarrow> LayoutState" where
  "finalState sc cfg =
     foldl (layoutNote (spreadLayoutConfig DEFAULT_CONFIG cfg) sc (beatsPerMeasure (timeSignature sc)))
           (initialLayoutState (spreadLayoutConfig DEFAULT_CONFIG cfg)) (allNotes sc)"


definition systemY :: "LayoutConfig \<Rightarrow> nat \<Rightarrow> rat" where
  "systemY fc k = marginTop fc + of_nat k * (staffHeight fc + systemSpacing fc)"

definition rowInv :: "LayoutConfig \<Rightarrow> LayoutState \<Rightarrow> bool" where
  "rowInv fc st =
     (map startY (done_systems st) = map (systemY fc) [0..<length (done_systems st)]
      \<and> startY (currentSystem st) = systemY fc (length (done_systems st)))"

definition fullInv :: "LayoutState \<Rightarrow> bool" where
  "fullInv st = ([] \<notin> set (map sys_notes (done_systems st)))"

subsection \<open>Circles layout\<close>

text \<open>The circles placed so far, the entry that the loop body pushes for a note or rest
  when the row cursor is at \<open>(sx, sy)\<close>, and the state after the last note.\<close>

definition arranged :: "CirclesState \<Rightarrow> CircleLayout list" where
  "arranged st = concat (map circles (done_rows st)) @ currentRow st"

fun circleOf :: "CirclesLayoutConfig \<Rightarrow> rat \<Rightarrow> NoteOrRest \<times> nat \<times> nat \<Rightarrow> rat \<Rightarrow> rat \<Rightarrow> CircleLayout" where
  "circleOf fc r (Rest d, pidx, nidx) sx sy =
     \<lparr>cx = sx + (durationToPositions d * circleSpacing fc - circleSpacing fc) / 2,
      cy = sy, radius = 0, c_partIndex = pidx, c_noteIndex = nidx,
      c_isRest = True, c_octave = None, subCircles = None, lyric = None\<rparr>"
| "circleOf fc r (Note p oc d ly ac, pidx, nidx) sx sy =
     computeNoteCircle d oc ly sx sy r fc pidx nidx"

definition finalCircles :: "Score \<Rightarrow> PartialCirclesLayoutConfig \<Rightarrow> CirclesState" where
  "finalCircles sc cfg =
     (let fullConfig = spreadCirclesConfig DEFAULT_CIRCLES_CONFIG cfg;
          baseRadius = circleSize fullConfig / 2
      in foldl (circlesNote fullConfig baseRadius
                  (c_canvasWidth fullConfig - c_marginLeft fullConfig - baseRadius))
               (initialCirclesState fullConfig baseRadius) (allNotes sc))"

definition baseRadiusOf :: "CirclesLayout \<Rightarrow> rat" where
  "baseRadiusOf l = circleSize (c_config l) / 2"

definition fullRows :: "CirclesState \<Rightarrow> bool" where
  "fullRows st = ([] \<notin> set (map circles (done_rows st)))"

subsection \<open>Example inputs\<close>

text \<open>The omitted \<open>config\<close> argument, and a score with a single part.\<close>

definition noOverrides :: PartialLayoutConfig where
  "noOverrides = \<lparr>canvasWidth_opt = None, staffLineSpacing_opt = None, noteSpacing_opt = None,
     marginLeft_opt = None, marginTop_opt = None, staffHeight_opt = None, systemSpacing_opt = None\<rparr>"

definition noCirclesOverrides :: PartialCirclesLayoutConfig where
  "noCirclesOverrides = \<lparr>c_canvasWidth_opt = None, circleSize_opt = None, circleSpacing_opt = None,
     c_marginLeft_opt = None, c_marginTop_opt = None, rowSpacing_opt = None, lyricOffset_opt = None\<rparr>"

definition singlePartScore :: "rat \<Rightarrow> rat \<Rightarrow> NoteOrRest list \<Rightarrow> Score" where
  "singlePartScore b v ns =
     \<lparr>title = ''Test'', tempo = None, renderingMode = Staff,
      timeSignature = \<lparr>beats = b, beatValue = v\<rparr>, clef = Treble,
      parts = [\<lparr>name = None, part_notes = ns\<rparr>]\<rparr>"


subsection \<open>Further abstractions\<close>

text \<open>The index pair that addresses a note layout.\<close>

definition noteTag :: "NoteLayout \<Rightarrow> nat \<times> nat" where
  "noteTag n = (partIndex n, noteIndex n)"

text \<open>Two configurations with a canvas of width 100, where every note starts a new
  system; the first also sets \<open>systemSpacing\<close> to \<open>-40\<close>.\<close>

definition narrowNegative :: PartialLayoutConfig where
  "narrowNegative = noOverrides\<lparr>canvasWidth_opt := Some 100, systemSpacing_opt := Some (- 40)\<rparr>"

definition narrow :: PartialLayoutConfig where
  "narrow = noOverrides\<lparr>canvasWidth_opt := Some 100\<rparr>"

text \<open>What a circle entry says about its note apart from the position: indices, rest
  flag, radius, the radii of its sub-circles, octave and lyric.\<close>

definition circleView ::
  "CircleLayout \<Rightarrow> nat \<times> nat \<times> bool \<times> rat \<times> rat list option \<times> Octave option \<times> string option" where
  "circleView c =
     (c_partIndex c, c_noteIndex c, c_isRest c, radius c,
      map_option (map sub_radius) (subCircles c), c_octave c, lyric c)"

text \<open>The sizing rule and the carried attributes, as relations between a circle entry and
  the entry of the flattened sequence it was computed from.\<close>

definition sizedFor :: "rat \<Rightarrow> CircleLayout \<Rightarrow> NoteOrRest \<times> nat \<times> nat \<Rightarrow> bool" where
  "sizedFor r = (\<lambda>c e. (c_partIndex c, c_noteIndex c) = snd e \<and>
        (case fst e of
           Rest d \<Rightarrow> c_isRest c \<and> radius c = 0 \<and> subCircles c = None
         | Note p oc d ly ac \<Rightarrow> \<not> c_isRest c \<and>
            (case d of
               Whole \<Rightarrow> radius c = 1.8 * r \<and> subCircles c = None
             | Half \<Rightarrow> radius c = 1.4 * r \<and> subCircles c = None
             | Quarter \<Rightarrow> radius c = r \<and> subCircles c = None
             | Eighth \<Rightarrow> subCircles c = Some
                 [\<lparr>sub_cx = cx c - 0.66 * r, sub_cy = cy c, sub_radius = 0.6 * r\<rparr>,
                  \<lparr>sub_cx = cx c + 0.66 * r, sub_cy = cy c, sub_radius = 0.6 * r\<rparr>]
             | Sixteenth \<Rightarrow> subCircles c = Some
                 [\<lparr>sub_cx = cx c - 0.48 * r, sub_cy = cy c - 0.48 * r, sub_radius = 0.4 * r\<rparr>,
                  \<lparr>sub_cx = cx c + 0.48 * r, sub_cy = cy c - 0.48 * r, sub_radius = 0.4 * r\<rparr>,
                  \<lparr>sub_cx = cx c - 0.48 * r, sub_cy = cy c + 0.48 * r, sub_radius = 0.4 * r\<rparr>,
                  \<lparr>sub_cx = cx c + 0.48 * r, sub_cy = cy c + 0.48 * r, sub_radius = 0.4 * r\<rparr>])))"

definition carriedFor ::
  "rat \<Rightarrow> CirclesLayoutConfig \<Rightarrow> Octave \<Rightarrow> string option \<Rightarrow> nat \<Rightarrow> nat
     \<Rightarrow> CircleLayout \<Rightarrow> NoteOrRest \<times> nat \<times> nat \<Rightarrow> bool" where
  "carriedFor r fc oc' ly' pidx' nidx' = (\<lambda>c e. (c_partIndex c, c_noteIndex c) = snd e \<and>
        (case fst e of
           Rest d \<Rightarrow> c_octave c = None \<and> lyric c = None \<and> subCircles c = None
         | Note p oc d ly ac \<Rightarrow> c_octave c = Some oc \<and> lyric c = ly \<and>
             subCircles c = subCircles (computeNoteCircle d oc' ly' (cx c) (cy c) r fc pidx' nidx')))"

text \<open>Two one-note scores that differ in the octave and the lyric of the note only.\<close>

definition lowEighth :: Score where
  "lowEighth = singlePartScore 4 4 [Note C Lower Eighth (Some ''la'') None]"

definition highEighth :: Score where
  "highEighth = singlePartScore 4 4 [Note C Upper Eighth None None]"










section \<open>Properties\<close>

subsection \<open>Pitch to staff position\<close>

text \<open>
  C2: \<open>pitchToStaffPosition\<close> is a total function into the integers. Its value is the
  value in the lower register of the same clef (the clef-specific base offset, C to H
  being -2..4 in treble and -4..2 in bass) plus a register offset of 0 for lower, 7 for
  middle and 14 for upper. Treble lower-E is 0, treble middle-C is 5, bass lower-G is 0
  and bass middle-A is 8.
\<close>

theorem pitchToStaffPosition_offsets:
  "pitchToStaffPosition p oc cl =
     pitchToStaffPosition p Lower cl + (case oc of Lower \<Rightarrow> 0 | Middle \<Rightarrow> 7 | Upper \<Rightarrow> 14)
   \<and> map (\<lambda>q. pitchToStaffPosition q Lower Treble) [C, D, E, F, G, A, H] = [-2, -1, 0, 1, 2, 3, 4]
   \<and> map (\<lambda>q. pitchToStaffPosition q Lower Bass) [C, D, E, F, G, A, H] = [-4, -3, -2, -1, 0, 1, 2]
   \<and> pitchToStaffPosition E Lower Treble = 0
   \<and> pitchToStaffPosition C Middle Treble = 5
   \<and> pitchToStaffPosition G Lower Bass = 0
   \<and> pitchToStaffPosition A Middle Bass = 8"
  by (cases oc) (simp_all add: pitchToStaffPosition_def)

subsection \<open>Accented colours\<close>

text \<open>
  C6: for a pitch with an upper neighbour (C to D, D to E, F to G, G to A, A to H)
  \<open>getAccentedColors\<close> returns the pitch's own colour on the left and the neighbour's
  colour on the right; for E and H both sides are the pitch's own colour.
\<close>

theorem getAccentedColors_table:
  "getAccentedColors C = \<lparr>left = ULWILA_COLORS C, right = ULWILA_COLORS D\<rparr>
   \<and> getAccentedColors D = \<lparr>left = ULWILA_COLORS D, right = ULWILA_COLORS E\<rparr>
   \<and> getAccentedColors F = \<lparr>left = ULWILA_COLORS F, right = ULWILA_COLORS G\<rparr>
   \<and> getAccentedColors G = \<lparr>left = ULWILA_COLORS G, right = ULWILA_COLORS A\<rparr>
   \<and> getAccentedColors A = \<lparr>left = ULWILA_COLORS A, right = ULWILA_COLORS H\<rparr>
   \<and> getAccentedColors E = \<lparr>left = ULWILA_COLORS E, right = ULWILA_COLORS E\<rparr>
   \<and> getAccentedColors H = \<lparr>left = ULWILA_COLORS H, right = ULWILA_COLORS H\<rparr>"
  by (simp add: getAccentedColors_def)

subsection \<open>Staff layout: the notes in order\<close>

lemma laid_layoutNote:
  "map noteView (laid (layoutNote fc sc bpm st e)) = map noteView (laid st) @ [entryView (clef sc) e]"
proof (cases e)
  case (fields nt pidx nidx)
  then show ?thesis
    by (cases nt) (simp_all add: layoutNote_def laid_def noteView_def Let_def)
qed

lemma laid_foldl:
  "map noteView (laid (foldl (layoutNote fc sc bpm) st es)) =
     map noteView (laid st) @ map (entryView (clef sc)) es"
  by (induction es arbitrary: st) (simp_all add: laid_layoutNote)

lemma laid_initial: "laid (initialLayoutState fc) = []"
  by (simp add: laid_def initialLayoutState_def)

lemma systems_computeLayout:
  "systems (computeLayout sc cfg) =
     (if sys_notes (currentSystem (finalState sc cfg)) \<noteq> [] \<or> done_systems (finalState sc cfg) = []
      then done_systems (finalState sc cfg) @ [currentSystem (finalState sc cfg)]
      else done_systems (finalState sc cfg))"
  by (simp add: computeLayout_def finalState_def Let_def)

lemma concat_systems:
  "concat (map sys_notes (systems (computeLayout sc cfg))) = laid (finalState sc cfg)"
  by (simp add: systems_computeLayout laid_def)

lemma staff_views:
  "map noteView (concat (map sys_notes (systems (computeLayout sc cfg)))) =
     map (entryView (clef sc)) (allNotes sc)"
  by (simp add: concat_systems finalState_def laid_foldl laid_initial)

subsection \<open>Staff layout: bar lines\<close>










subsection \<open>Staff layout: vertical placement of systems\<close>

lemma rowInv_initial: "rowInv fc (initialLayoutState fc)"
  by (simp add: rowInv_def initialLayoutState_def systemY_def)

lemma rowInv_layoutNote: "rowInv fc st \<Longrightarrow> rowInv fc (layoutNote fc sc bpm st e)"
  by (cases e) (simp add: layoutNote_def rowInv_def Let_def systemY_def algebra_simps)

lemma rowInv_foldl: "rowInv fc st \<Longrightarrow> rowInv fc (foldl (layoutNote fc sc bpm) st es)"
  by (induction es arbitrary: st) (simp_all add: rowInv_layoutNote)

lemma config_computeLayout: "config (computeLayout sc cfg) = spreadLayoutConfig DEFAULT_CONFIG cfg"
  by (simp add: computeLayout_def Let_def)

lemma startY_systems:
  "map startY (systems (computeLayout sc cfg)) =
     map (systemY (config (computeLayout sc cfg))) [0..<length (systems (computeLayout sc cfg))]"
proof -
  have "rowInv (spreadLayoutConfig DEFAULT_CONFIG cfg) (finalState sc cfg)"
    unfolding finalState_def by (rule rowInv_foldl) (rule rowInv_initial)
  then show ?thesis
    by (simp add: systems_computeLayout config_computeLayout rowInv_def)
qed

subsection \<open>Staff layout: no empty system\<close>

lemma fullInv_layoutNote: "fullInv st \<Longrightarrow> fullInv (layoutNote fc sc bpm st e)"
  by (cases e) (simp add: layoutNote_def fullInv_def Let_def)

lemma fullInv_foldl: "fullInv st \<Longrightarrow> fullInv (foldl (layoutNote fc sc bpm) st es)"
  by (induction es arbitrary: st) (simp_all add: fullInv_layoutNote)

lemma fullInv_final: "fullInv (finalState sc cfg)"
  unfolding finalState_def by (rule fullInv_foldl) (simp add: fullInv_def initialLayoutState_def)

lemma foldl_layoutNote_Nil: "finalState sc cfg = initialLayoutState (spreadLayoutConfig DEFAULT_CONFIG cfg)" if "allNotes sc = []"
  using that by (simp add: finalState_def)

lemma laid_Nil_iff: "(laid (finalState sc cfg) = []) = (allNotes sc = [])"
proof -
  have "map noteView (laid (finalState sc cfg)) = map (entryView (clef sc)) (allNotes sc)"
    by (simp add: finalState_def laid_foldl laid_initial)
  then have "length (laid (finalState sc cfg)) = length (allNotes sc)"
    using map_eq_imp_length_eq by blast
  then show ?thesis by (metis length_0_conv)
qed

lemma staff_empty_system_iff:
  "([] \<in> set (map sys_notes (systems (computeLayout sc cfg)))) = (allNotes sc = [])"
proof (cases "allNotes sc = []")
  case True
  then show ?thesis
    by (simp add: systems_computeLayout foldl_layoutNote_Nil initialLayoutState_def)
next
  case False
  then have ne: "laid (finalState sc cfg) \<noteq> []" by (simp add: laid_Nil_iff)
  have full: "[] \<notin> set (map sys_notes (done_systems (finalState sc cfg)))"
    using fullInv_final [of sc cfg] by (simp add: fullInv_def)
  have "done_systems (finalState sc cfg) = [] \<Longrightarrow> sys_notes (currentSystem (finalState sc cfg)) \<noteq> []"
    using ne by (simp add: laid_def)
  with full False show ?thesis
    by (auto simp: systems_computeLayout)
qed

lemma staff_empty_score_iff:
  "(systems (computeLayout sc cfg) =
      [\<lparr>startX = marginLeft (config (computeLayout sc cfg)), startY = marginTop (config (computeLayout sc cfg)),
        sys_notes = [], barLines = []\<rparr>]) = (allNotes sc = [])"
proof (cases "allNotes sc = []")
  case True
  then show ?thesis
    by (simp add: systems_computeLayout config_computeLayout foldl_layoutNote_Nil initialLayoutState_def)
next
  case False
  then have "[] \<notin> set (map sys_notes (systems (computeLayout sc cfg)))"
    using staff_empty_system_iff [of sc cfg] by blast
  with False show ?thesis by auto
qed

subsection \<open>The flattened sequence\<close>

lemma enumerate_tags:
  "map snd (map (\<lambda>(nidx, n). (n, k, nidx)) (enumerate 0 ns)) = map (Pair k) [0..<length ns]"
proof -
  have "map (\<lambda>(nidx, n). (k, nidx)) (enumerate j ns) = map (Pair k) [j..<j + length ns]" for j
    by (induction ns arbitrary: j) (simp_all add: upt_conv_Cons del: upt_Suc)
  from this [of 0] show ?thesis
    by (simp add: comp_def case_prod_unfold)
qed

lemma enumerate_notes:
  "map fst (map (\<lambda>(nidx, n). (n, k::nat, nidx)) (enumerate 0 ns)) = ns"
proof -
  have "map (\<lambda>(nidx, n). n) (enumerate j ns) = ns" for j
    by (induction ns arbitrary: j) simp_all
  from this [of 0] show ?thesis
    by (simp add: comp_def case_prod_unfold)
qed

lemma tags_from:
  "map snd (concat (map (\<lambda>(pidx, part). map (\<lambda>(nidx, n). (n, pidx, nidx)) (enumerate 0 (part_notes part)))
                        (enumerate k ps))) =
   concat (map (\<lambda>p. map (Pair p) [0..<length (part_notes (ps ! (p - k)))]) [k..<k + length ps])"
proof (induction ps arbitrary: k)
  case Nil
  show ?case by simp
next
  case (Cons a ps)
  have range: "[k..<k + length (a # ps)] = k # [Suc k..<Suc k + length ps]"
    by (simp add: upt_conv_Cons del: upt_Suc)
  have shift: "map (\<lambda>p. map (Pair p) [0..<length (part_notes ((a # ps) ! (p - k)))]) [Suc k..<Suc k + length ps]
      = map (\<lambda>p. map (Pair p) [0..<length (part_notes (ps ! (p - Suc k)))]) [Suc k..<Suc k + length ps]"
    by (rule map_cong) (auto simp: nth_Cons')
  have "map snd (concat (map (\<lambda>(pidx, part). map (\<lambda>(nidx, n). (n, pidx, nidx)) (enumerate 0 (part_notes part)))
                        (enumerate k (a # ps)))) =
        map (Pair k) [0..<length (part_notes a)] @
        concat (map (\<lambda>p. map (Pair p) [0..<length (part_notes (ps ! (p - Suc k)))]) [Suc k..<Suc k + length ps])"
    using Cons.IH [of "Suc k"] enumerate_tags [of k "part_notes a"] by (simp del: upt_Suc map_map)
  also have "\<dots> = map (Pair k) [0..<length (part_notes a)] @
        concat (map (\<lambda>p. map (Pair p) [0..<length (part_notes ((a # ps) ! (p - k)))]) [Suc k..<Suc k + length ps])"
    by (simp only: shift)
  also have "\<dots> = concat (map (\<lambda>p. map (Pair p) [0..<length (part_notes ((a # ps) ! (p - k)))]) [k..<k + length (a # ps)])"
    by (simp only: range) simp
  finally show ?case .
qed

lemma allNotes_tags:
  "map snd (allNotes sc) =
     concat (map (\<lambda>p. map (Pair p) [0..<length (part_notes (parts sc ! p))]) [0..<length (parts sc)])"
  using tags_from [of 0 "parts sc"] by (simp add: allNotes_def)

lemma notes_from:
  "map fst (concat (map (\<lambda>(pidx, part). map (\<lambda>(nidx, n). (n, pidx, nidx)) (enumerate 0 (part_notes part)))
                        (enumerate k ps))) = concat (map part_notes ps)"
  by (induction ps arbitrary: k) (simp_all add: enumerate_notes del: map_map)

lemma allNotes_notes: "map fst (allNotes sc) = concat (map part_notes (parts sc))"
  by (simp add: allNotes_def notes_from)

lemma distinct_tag_rows:
  "distinct ps \<Longrightarrow> distinct (concat (map (\<lambda>p. map (Pair p) [0..<f p]) ps))"
  by (induction ps) (auto simp: distinct_map inj_on_def)

lemma distinct_allNotes: "distinct (map snd (allNotes sc))"
  by (simp add: allNotes_tags distinct_tag_rows)

lemma once_in_concat:
  "distinct (concat xss) \<Longrightarrow>
     length (filter (\<lambda>xs. t \<in> set xs) xss) = (if t \<in> set (concat xss) then 1 else 0)"
  by (induction xss) auto

subsection \<open>Circles layout: the circles in order\<close>

lemma arranged_circlesNote:
  "\<exists>sx sy. arranged (circlesNote fc r mx st e) = arranged st @ [circleOf fc r e sx sy]"
proof (cases e)
  case (fields nt pidx nidx)
  show ?thesis
  proof (cases "mx < c_currentX st + durationToPositions (duration nt) * circleSpacing fc - circleSpacing fc / 2
                  \<and> 0 < length (currentRow st)")
    case True
    with fields show ?thesis
      by (cases nt) (auto simp: circlesNote_def arranged_def Let_def)
  next
    case False
    with fields show ?thesis
      by (cases nt) (auto simp: circlesNote_def arranged_def Let_def)
  qed
qed

lemma arranged_foldl:
  assumes step: "\<And>e sx sy. P (circleOf fc r e sx sy) e"
  shows "list_all2 P (arranged st) es0 \<Longrightarrow>
         list_all2 P (arranged (foldl (circlesNote fc r mx) st es)) (es0 @ es)"
proof (induction es arbitrary: st es0)
  case Nil
  then show ?case by simp
next
  case (Cons e es)
  obtain sx sy where "arranged (circlesNote fc r mx st e) = arranged st @ [circleOf fc r e sx sy]"
    using arranged_circlesNote by blast
  with Cons.prems step have "list_all2 P (arranged (circlesNote fc r mx st e)) (es0 @ [e])"
    by (simp add: list_all2_appendI)
  from Cons.IH [OF this] show ?case by simp
qed

lemma rows_computeCirclesLayout:
  "rows (computeCirclesLayout sc cfg) =
     (if currentRow (finalCircles sc cfg) \<noteq> []
      then done_rows (finalCircles sc cfg) @
             [\<lparr>row_startY = currentRowY (finalCircles sc cfg), circles = currentRow (finalCircles sc cfg)\<rparr>]
      else if done_rows (finalCircles sc cfg) = []
      then [\<lparr>row_startY = currentRowY (finalCircles sc cfg), circles = []\<rparr>]
      else done_rows (finalCircles sc cfg))"
  by (simp add: computeCirclesLayout_def finalCircles_def Let_def)

lemma config_computeCirclesLayout:
  "c_config (computeCirclesLayout sc cfg) = spreadCirclesConfig DEFAULT_CIRCLES_CONFIG cfg"
  by (simp add: computeCirclesLayout_def Let_def)

lemma concat_rows:
  "concat (map circles (rows (computeCirclesLayout sc cfg))) = arranged (finalCircles sc cfg)"
  by (simp add: rows_computeCirclesLayout arranged_def)

lemma circles_all2:
  assumes "\<And>e sx sy. P (circleOf (c_config (computeCirclesLayout sc cfg))
                                  (baseRadiusOf (computeCirclesLayout sc cfg)) e sx sy) e"
  shows "list_all2 P (concat (map circles (rows (computeCirclesLayout sc cfg)))) (allNotes sc)"
proof -
  let ?fc = "spreadCirclesConfig DEFAULT_CIRCLES_CONFIG cfg"
  have start: "list_all2 P (arranged (initialCirclesState ?fc (circleSize ?fc / 2))) []"
    by (simp add: arranged_def initialCirclesState_def)
  have step: "\<And>e sx sy. P (circleOf ?fc (circleSize ?fc / 2) e sx sy) e"
    using assms by (simp add: config_computeCirclesLayout baseRadiusOf_def)
  from arranged_foldl [of P ?fc "circleSize ?fc / 2", OF step start]
  show ?thesis
    by (simp add: concat_rows finalCircles_def Let_def)
qed

subsection \<open>Circles layout: no empty row\<close>

lemma fullRows_circlesNote: "fullRows st \<Longrightarrow> fullRows (circlesNote fc r mx st e)"
proof (cases e)
  case (fields nt pidx nidx)
  assume "fullRows st"
  with fields show ?thesis
    by (cases nt) (auto simp: circlesNote_def fullRows_def Let_def)
qed

lemma fullRows_foldl: "fullRows st \<Longrightarrow> fullRows (foldl (circlesNote fc r mx) st es)"
  by (induction es arbitrary: st) (simp_all add: fullRows_circlesNote)

lemma fullRows_final: "fullRows (finalCircles sc cfg)"
  unfolding finalCircles_def Let_def
  by (rule fullRows_foldl) (simp add: fullRows_def initialCirclesState_def)

lemma arranged_Nil_iff: "(arranged (finalCircles sc cfg) = []) = (allNotes sc = [])"
proof -
  have "list_all2 (\<lambda>c e. True) (concat (map circles (rows (computeCirclesLayout sc cfg)))) (allNotes sc)"
    by (rule circles_all2) simp
  then have "length (arranged (finalCircles sc cfg)) = length (allNotes sc)"
    by (simp add: concat_rows list_all2_lengthD)
  then show ?thesis by (metis length_0_conv)
qed

lemma circles_empty_row_iff:
  "([] \<in> set (map circles (rows (computeCirclesLayout sc cfg)))) = (allNotes sc = [])"
proof (cases "allNotes sc = []")
  case True
  then show ?thesis
    by (simp add: rows_computeCirclesLayout finalCircles_def Let_def initialCirclesState_def)
next
  case False
  then have ne: "arranged (finalCircles sc cfg) \<noteq> []" by (simp add: arranged_Nil_iff)
  have full: "[] \<notin> set (map circles (done_rows (finalCircles sc cfg)))"
    using fullRows_final [of sc cfg] by (simp add: fullRows_def)
  have "currentRow (finalCircles sc cfg) = [] \<Longrightarrow> done_rows (finalCircles sc cfg) \<noteq> []"
    using ne by (auto simp: arranged_def)
  with full False show ?thesis
    by (auto simp: rows_computeCirclesLayout)
qed

lemma circles_empty_score_iff:
  "(rows (computeCirclesLayout sc cfg) =
      [\<lparr>row_startY = c_marginTop (c_config (computeCirclesLayout sc cfg)) + baseRadiusOf (computeCirclesLayout sc cfg),
        circles = []\<rparr>]) = (allNotes sc = [])"
proof (cases "allNotes sc = []")
  case True
  then show ?thesis
    by (simp add: rows_computeCirclesLayout config_computeCirclesLayout baseRadiusOf_def
        finalCircles_def Let_def initialCirclesState_def)
next
  case False
  then have "[] \<notin> set (map circles (rows (computeCirclesLayout sc cfg)))"
    using circles_empty_row_iff [of sc cfg] by blast
  with False show ?thesis by auto
qed

subsection \<open>Bar lines by beat counting\<close>



subsection \<open>Systems partition the notes\<close>

lemma noteTag_noteView: "noteTag n = (fst (noteView n), fst (snd (noteView n)))"
  by (simp add: noteTag_def noteView_def)

lemma tag_entryView: "(fst (entryView cl e), fst (snd (entryView cl e))) = snd e"
  by (cases "(cl, e)" rule: entryView.cases) simp_all

lemma staff_tags:
  "map noteTag (concat (map sys_notes (systems (computeLayout sc cfg)))) = map snd (allNotes sc)"
proof -
  have "map noteTag (concat (map sys_notes (systems (computeLayout sc cfg)))) =
        map (\<lambda>v. (fst v, fst (snd v))) (map noteView (concat (map sys_notes (systems (computeLayout sc cfg)))))"
    by (simp add: noteTag_noteView)
  also have "\<dots> = map (\<lambda>v. (fst v, fst (snd v))) (map (entryView (clef sc)) (allNotes sc))"
    by (simp only: staff_views)
  also have "\<dots> = map snd (allNotes sc)"
    by (simp add: tag_entryView)
  finally show ?thesis .
qed

lemma staff_once:
  "length (filter (\<lambda>s. t \<in> set (map noteTag (sys_notes s))) (systems (computeLayout sc cfg))) =
     (if t \<in> set (map snd (allNotes sc)) then 1 else 0)"
proof -
  let ?xss = "map (\<lambda>s. map noteTag (sys_notes s)) (systems (computeLayout sc cfg))"
  have cc: "concat ?xss = map snd (allNotes sc)"
    using staff_tags [of sc cfg] by (simp add: map_concat comp_def)
  then have "distinct (concat ?xss)"
    by (simp only: distinct_allNotes)
  from once_in_concat [OF this, of t] show ?thesis
    unfolding cc by (simp add: filter_map comp_def)
qed

lemma systems_nonempty: "systems (computeLayout sc cfg) \<noteq> []"
  by (simp add: systems_computeLayout)

lemma systemY_Suc: "systemY fc (Suc k) = systemY fc k + staffHeight fc + systemSpacing fc"
  by (simp add: systemY_def algebra_simps)

lemma startY_first:
  "map startY (take 1 (systems (computeLayout sc cfg))) = [marginTop (config (computeLayout sc cfg))]"
proof -
  obtain s ss where "systems (computeLayout sc cfg) = s # ss"
    using systems_nonempty [of sc cfg] by (cases "systems (computeLayout sc cfg)") auto
  with startY_systems [of sc cfg] show ?thesis
    by (simp add: systemY_def upt_conv_Cons del: upt_Suc)
qed

lemma steps_of_closed_form:
  "map f xs = map g [0..<length xs] \<Longrightarrow> (\<And>k. g (Suc k) = h (g k)) \<Longrightarrow>
     map f (tl xs) = map (\<lambda>x. h (f x)) (butlast xs)"
proof (rule nth_equalityI)
  show "length (map f (tl xs)) = length (map (\<lambda>x. h (f x)) (butlast xs))" by simp
next
  fix i
  assume closed: "map f xs = map g [0..<length xs]" and step: "\<And>k. g (Suc k) = h (g k)"
    and "i < length (map f (tl xs))"
  then have i: "Suc i < length xs" by simp
  have at: "f (xs ! k) = g k" if "k < length xs" for k
    using that arg_cong [OF closed, of "\<lambda>l. l ! k"] by simp
  from i have "map f (tl xs) ! i = f (xs ! Suc i)"
    by (simp add: nth_tl)
  also have "\<dots> = h (f (xs ! i))"
    using i at [of "Suc i"] at [of i] step by simp
  also have "\<dots> = map (\<lambda>x. h (f x)) (butlast xs) ! i"
  proof -
    from i have "i < length (butlast xs)" by simp
    then show ?thesis by (simp add: nth_butlast)
  qed
  finally show "map f (tl xs) ! i = map (\<lambda>x. h (f x)) (butlast xs) ! i" .
qed

lemma startY_steps:
  "map startY (tl (systems (computeLayout sc cfg))) =
     map (\<lambda>s. startY s + staffHeight (config (computeLayout sc cfg)) + systemSpacing (config (computeLayout sc cfg)))
         (butlast (systems (computeLayout sc cfg)))"
  by (rule steps_of_closed_form [OF startY_systems]) (rule systemY_Suc)

lemma startY_defaults:
  assumes "marginTop_opt cfg = None" and "staffHeight_opt cfg = None" and "systemSpacing_opt cfg = None"
  shows "map startY (systems (computeLayout sc cfg)) =
           map (\<lambda>k. 40 + 120 * of_nat k) [0..<length (systems (computeLayout sc cfg))]"
    and "sorted_wrt (<) (map startY (systems (computeLayout sc cfg)))"
proof -
  have fc: "marginTop (config (computeLayout sc cfg)) = 40"
    "staffHeight (config (computeLayout sc cfg)) = 40" "systemSpacing (config (computeLayout sc cfg)) = 80"
    using assms by (simp_all add: config_computeLayout spreadLayoutConfig_def DEFAULT_CONFIG_def)
  then have "systemY (config (computeLayout sc cfg)) = (\<lambda>k. 40 + 120 * of_nat k)"
    by (simp add: systemY_def fun_eq_iff)
  with startY_systems [of sc cfg]
  show closed: "map startY (systems (computeLayout sc cfg)) =
           map (\<lambda>k. 40 + 120 * of_nat k) [0..<length (systems (computeLayout sc cfg))]"
    by simp
  have "sorted_wrt (<) (map (\<lambda>k. 40 + 120 * (of_nat k :: rat)) [0..<n])" for n
    by (simp add: sorted_wrt_map sorted_wrt_iff_nth_less)
  then show "sorted_wrt (<) (map startY (systems (computeLayout sc cfg)))"
    by (simp only: closed)
qed

text \<open>
  C5 (amended): for every score and configuration the concatenation of the systems' note
  lists is the flattened sequence of the score (the parts in order, the notes of each part
  in order, each with its part index and note index), and every index pair occurs in
  exactly one system if it addresses a note of the score, and in none otherwise. The first
  system starts at \<open>marginTop\<close>, and every further system at the \<open>startY\<close> of the system
  before it plus \<open>staffHeight\<close> plus \<open>systemSpacing\<close>, added in this order. When
  \<open>marginTop\<close>, \<open>staffHeight\<close> and \<open>systemSpacing\<close> are left at their defaults 40, 40
  and 80, system \<open>k\<close> starts at \<open>40 + 120 k\<close> and the \<open>startY\<close> are strictly increasing.
\<close>

theorem computeLayout_systems_partition:
  "map noteTag (concat (map sys_notes (systems (computeLayout sc cfg)))) = map snd (allNotes sc)
   \<and> map fst (allNotes sc) = concat (map part_notes (parts sc))
   \<and> map snd (allNotes sc) =
       concat (map (\<lambda>p. map (Pair p) [0..<length (part_notes (parts sc ! p))]) [0..<length (parts sc)])
   \<and> length (filter (\<lambda>s. t \<in> set (map noteTag (sys_notes s))) (systems (computeLayout sc cfg))) =
       (if t \<in> set (map snd (allNotes sc)) then 1 else 0)
   \<and> map startY (take 1 (systems (computeLayout sc cfg))) = [marginTop (config (computeLayout sc cfg))]
   \<and> map startY (tl (systems (computeLayout sc cfg))) =
       map (\<lambda>s. startY s + staffHeight (config (computeLayout sc cfg)) + systemSpacing (config (computeLayout sc cfg)))
           (butlast (systems (computeLayout sc cfg)))
   \<and> (marginTop_opt cfg = None \<and> staffHeight_opt cfg = None \<and> systemSpacing_opt cfg = None \<longrightarrow>
        map startY (systems (computeLayout sc cfg)) =
          map (\<lambda>k. 40 + 120 * of_nat k) [0..<length (systems (computeLayout sc cfg))]
        \<and> sorted_wrt (<) (map startY (systems (computeLayout sc cfg))))"
proof -
  have order: "map snd (allNotes sc) =
       concat (map (\<lambda>p. map (Pair p) [0..<length (part_notes (parts sc ! p))]) [0..<length (parts sc)])"
    by (rule allNotes_tags)
  show ?thesis
    using staff_tags [of sc cfg] allNotes_notes [of sc] order staff_once [of t sc cfg]
      startY_first [of sc cfg] startY_steps [of sc cfg] startY_defaults [of cfg sc]
    by blast
qed

text \<open>
  C5 as stated, for every configuration, fails: with \<open>staffHeight = 40\<close> and
  \<open>systemSpacing = -40\<close> on a canvas of width 100, two rests are laid out in two systems
  that both start at \<open>y = 40\<close>.
\<close>

theorem computeLayout_startY_counterexample:
  "map startY (systems (computeLayout (singlePartScore 4 4 [Rest Quarter, Rest Quarter]) narrowNegative)) = [40, 40]
   \<and> \<not> sorted_wrt (<) (map startY (systems (computeLayout (singlePartScore 4 4 [Rest Quarter, Rest Quarter]) narrowNegative)))"
  by code_simp

text \<open>With the default margins and spacing the two systems start at 40 and 160.\<close>

theorem computeLayout_systems_partition_witness:
  "marginTop_opt narrow = None \<and> staffHeight_opt narrow = None \<and> systemSpacing_opt narrow = None
   \<and> map startY (systems (computeLayout (singlePartScore 4 4 [Rest Quarter, Rest Quarter]) narrow)) = [40, 160]
   \<and> sorted_wrt (<) (map startY (systems (computeLayout (singlePartScore 4 4 [Rest Quarter, Rest Quarter]) narrow)))"
proof -
  have h: "marginTop_opt narrow = None \<and> staffHeight_opt narrow = None \<and> systemSpacing_opt narrow = None"
    by (simp add: narrow_def noOverrides_def)
  have v: "map startY (systems (computeLayout (singlePartScore 4 4 [Rest Quarter, Rest Quarter]) narrow)) = [40, 160]"
    by code_simp
  from computeLayout_systems_partition [of "singlePartScore 4 4 [Rest Quarter, Rest Quarter]" narrow] h
  have "sorted_wrt (<) (map startY (systems (computeLayout (singlePartScore 4 4 [Rest Quarter, Rest Quarter]) narrow)))"
    by blast
  with h v show ?thesis by blast
qed

subsection \<open>Empty systems and rows\<close>

text \<open>
  C10: a staff layout has a system without notes exactly when the score has no note or
  rest at all, and so has a circles layout a row without circles. The layouts of such a
  score are a single system at the margins without notes and bar lines, and a single row
  without circles; no other score has these layouts.
\<close>

theorem no_empty_system_or_row:
  "([] \<in> set (map sys_notes (systems (computeLayout sc cfg)))) = (allNotes sc = [])
   \<and> ([] \<in> set (map circles (rows (computeCirclesLayout sc ccfg)))) = (allNotes sc = [])
   \<and> (systems (computeLayout sc cfg) =
        [\<lparr>startX = marginLeft (config (computeLayout sc cfg)), startY = marginTop (config (computeLayout sc cfg)),
          sys_notes = [], barLines = []\<rparr>]) = (allNotes sc = [])
   \<and> (rows (computeCirclesLayout sc ccfg) =
        [\<lparr>row_startY = c_marginTop (c_config (computeCirclesLayout sc ccfg)) + baseRadiusOf (computeCirclesLayout sc ccfg),
          circles = []\<rparr>]) = (allNotes sc = [])
   \<and> (concat (map part_notes (parts sc)) = []) = (allNotes sc = [])"
proof -
  have "(concat (map part_notes (parts sc)) = []) = (allNotes sc = [])"
    using allNotes_notes [of sc] by (metis map_is_Nil_conv)
  then show ?thesis
    by (simp only: staff_empty_system_iff circles_empty_row_iff staff_empty_score_iff
        circles_empty_score_iff simp_thms)
qed

subsection \<open>Canvas width\<close>

lemma circleView_circleOf:
  "circleView (circleOf fc r e sx sy) = circleView (circleOf fc' r e sx' sy')"
proof (cases e)
  case (fields nt pidx nidx)
  show ?thesis
  proof (cases nt)
    case (Note p oc d ly ac)
    with fields show ?thesis
      by (cases d) (simp_all add: circleView_def Let_def)
  next
    case (Rest d)
    with fields show ?thesis
      by (simp add: circleView_def)
  qed
qed

lemma all2_map_eq: "list_all2 (\<lambda>a b. f a = g b) xs ys \<Longrightarrow> map f xs = map g ys"
  by (induction rule: list_all2_induct) simp_all

lemma circles_views:
  "map circleView (concat (map circles (rows (computeCirclesLayout sc cfg)))) =
     map (\<lambda>e. circleView (circleOf DEFAULT_CIRCLES_CONFIG (baseRadiusOf (computeCirclesLayout sc cfg)) e 0 0))
         (allNotes sc)"
  by (rule all2_map_eq, rule circles_all2) (rule circleView_circleOf)

lemma baseRadiusOf_width:
  "baseRadiusOf (computeCirclesLayout sc (cfg\<lparr>c_canvasWidth_opt := w\<rparr>)) =
     baseRadiusOf (computeCirclesLayout sc cfg)"
  by (simp add: baseRadiusOf_def config_computeCirclesLayout spreadCirclesConfig_def)

text \<open>
  C9: for every score and configuration and any two canvas widths (given or left to the
  default), the two staff layouts list the same notes in the same order with the same
  vertical staff position, rest flag and octave, and the two circles layouts list the same
  circles in the same order with the same radius, the same number and radii of
  sub-circles, octave and lyric.
\<close>

theorem canvas_width_only_wraps:
  "map noteView (concat (map sys_notes (systems (computeLayout sc (cfg\<lparr>canvasWidth_opt := w1\<rparr>))))) =
     map noteView (concat (map sys_notes (systems (computeLayout sc (cfg\<lparr>canvasWidth_opt := w2\<rparr>)))))
   \<and> map circleView (concat (map circles (rows (computeCirclesLayout sc (ccfg\<lparr>c_canvasWidth_opt := v1\<rparr>))))) =
     map circleView (concat (map circles (rows (computeCirclesLayout sc (ccfg\<lparr>c_canvasWidth_opt := v2\<rparr>)))))"
  by (simp only: staff_views circles_views baseRadiusOf_width simp_thms)

subsection \<open>Circle sizes\<close>

lemma sizedFor_circleOf: "sizedFor r (circleOf fc r e sx sy) e"
proof (cases e)
  case (fields nt pidx nidx)
  show ?thesis
  proof (cases nt)
    case (Note p oc d ly ac)
    with fields show ?thesis
      by (cases d) (simp_all add: sizedFor_def Let_def)
  next
    case (Rest d)
    with fields show ?thesis by (simp add: sizedFor_def)
  qed
qed

text \<open>
  C3: with \<open>r = circleSize / 2\<close>, the circles of the layout are, in order, those of the
  notes and rests of the score. A quarter note is a single circle of radius \<open>r\<close>, a
  half note one of radius \<open>1.4 r\<close>, a whole note one of radius \<open>1.8 r\<close>. An eighth
  note has exactly two sub-circles of radius \<open>0.6 r\<close>, at the height of the entry and
  \<open>0.66 r\<close> to its left and right. A sixteenth note has exactly four sub-circles of
  radius \<open>0.4 r\<close>, at the corners of a square around the centre of the entry, \<open>0.48 r\<close>
  away in each direction. A rest is an entry of radius 0.
\<close>

theorem circle_sizes_by_duration:
  "(let r = baseRadiusOf (computeCirclesLayout sc cfg) in
    list_all2
     (\<lambda>c e. (c_partIndex c, c_noteIndex c) = snd e \<and>
        (case fst e of
           Rest d \<Rightarrow> c_isRest c \<and> radius c = 0 \<and> subCircles c = None
         | Note p oc d ly ac \<Rightarrow> \<not> c_isRest c \<and>
            (case d of
               Whole \<Rightarrow> radius c = 1.8 * r \<and> subCircles c = None
             | Half \<Rightarrow> radius c = 1.4 * r \<and> subCircles c = None
             | Quarter \<Rightarrow> radius c = r \<and> subCircles c = None
             | Eighth \<Rightarrow> subCircles c = Some
                 [\<lparr>sub_cx = cx c - 0.66 * r, sub_cy = cy c, sub_radius = 0.6 * r\<rparr>,
                  \<lparr>sub_cx = cx c + 0.66 * r, sub_cy = cy c, sub_radius = 0.6 * r\<rparr>]
             | Sixteenth \<Rightarrow> subCircles c = Some
                 [\<lparr>sub_cx = cx c - 0.48 * r, sub_cy = cy c - 0.48 * r, sub_radius = 0.4 * r\<rparr>,
                  \<lparr>sub_cx = cx c + 0.48 * r, sub_cy = cy c - 0.48 * r, sub_radius = 0.4 * r\<rparr>,
                  \<lparr>sub_cx = cx c - 0.48 * r, sub_cy = cy c + 0.48 * r, sub_radius = 0.4 * r\<rparr>,
                  \<lparr>sub_cx = cx c + 0.48 * r, sub_cy = cy c + 0.48 * r, sub_radius = 0.4 * r\<rparr>])))
     (concat (map circles (rows (computeCirclesLayout sc cfg)))) (allNotes sc))"
proof -
  have "list_all2 (sizedFor (baseRadiusOf (computeCirclesLayout sc cfg)))
          (concat (map circles (rows (computeCirclesLayout sc cfg)))) (allNotes sc)"
    by (rule circles_all2) (rule sizedFor_circleOf)
  then show ?thesis
    by (simp only: sizedFor_def Let_def)
qed

subsection \<open>Octave and lyric\<close>

lemma carriedFor_circleOf: "carriedFor r fc' oc' ly' pidx' nidx' (circleOf fc r e sx sy) e"
proof (cases e)
  case (fields nt pidx nidx)
  show ?thesis
  proof (cases nt)
    case (Note p oc d ly ac)
    with fields show ?thesis
      by (cases d) (simp_all add: carriedFor_def Let_def)
  next
    case (Rest d)
    with fields show ?thesis by (simp add: carriedFor_def)
  qed
qed

text \<open>
  C8 (amended): the octave and the lyric of each note are carried on its circle entry. The
  sub-circles of the entry hold a centre and a radius only, and they are the same whatever
  the octave and the lyric of the note are: the sub-circles of a note with any other octave
  \<open>oc'\<close> and lyric \<open>ly'\<close> at the same place.
\<close>

theorem octave_lyric_on_circle_entries:
  "(let r = baseRadiusOf (computeCirclesLayout sc cfg) in
    list_all2
     (\<lambda>c e. (c_partIndex c, c_noteIndex c) = snd e \<and>
        (case fst e of
           Rest d \<Rightarrow> c_octave c = None \<and> lyric c = None \<and> subCircles c = None
         | Note p oc d ly ac \<Rightarrow> c_octave c = Some oc \<and> lyric c = ly \<and>
             subCircles c = subCircles (computeNoteCircle d oc' ly' (cx c) (cy c) r fc pidx' nidx')))
     (concat (map circles (rows (computeCirclesLayout sc cfg)))) (allNotes sc))"
proof -
  have "list_all2 (carriedFor (baseRadiusOf (computeCirclesLayout sc cfg)) fc oc' ly' pidx' nidx')
          (concat (map circles (rows (computeCirclesLayout sc cfg)))) (allNotes sc)"
    by (rule circles_all2) (rule carriedFor_circleOf)
  then show ?thesis
    by (simp only: carriedFor_def Let_def)
qed

text \<open>
  C8 as stated fails: an eighth note in the lower octave with the lyric \<open>la\<close> and an
  eighth note in the upper octave without lyric have the same two sub-circles, while the
  octave and the lyric of their entries differ. No sub-circle carries the octave or the
  lyric of its entry.
\<close>

theorem subCircles_carry_no_octave_counterexample:
  "map subCircles (concat (map circles (rows (computeCirclesLayout lowEighth noCirclesOverrides)))) =
     [Some [\<lparr>sub_cx = 26.8, sub_cy = 50, sub_radius = 12\<rparr>, \<lparr>sub_cx = 53.2, sub_cy = 50, sub_radius = 12\<rparr>]]
   \<and> map subCircles (concat (map circles (rows (computeCirclesLayout highEighth noCirclesOverrides)))) =
     [Some [\<lparr>sub_cx = 26.8, sub_cy = 50, sub_radius = 12\<rparr>, \<lparr>sub_cx = 53.2, sub_cy = 50, sub_radius = 12\<rparr>]]
   \<and> map c_octave (concat (map circles (rows (computeCirclesLayout lowEighth noCirclesOverrides)))) = [Some Lower]
   \<and> map c_octave (concat (map circles (rows (computeCirclesLayout highEighth noCirclesOverrides)))) = [Some Upper]
   \<and> map lyric (concat (map circles (rows (computeCirclesLayout lowEighth noCirclesOverrides)))) = [Some ''la'']
   \<and> map lyric (concat (map circles (rows (computeCirclesLayout highEighth noCirclesOverrides)))) = [None]"
  by code_simp

subsection \<open>Saving and loading\<close>

lemma valid_pitch: "validName pitchName VALID_PITCHES (Some (JString (pitchName p))) = Some p"
  by (cases p) (simp_all add: VALID_PITCHES_def)

lemma valid_octave: "validName octaveName VALID_OCTAVES (Some (JString (octaveName oc))) = Some oc"
  by (cases oc) (simp_all add: VALID_OCTAVES_def)

lemma valid_duration: "validName durationName VALID_DURATIONS (Some (JString (durationName d))) = Some d"
  by (cases d) (simp_all add: VALID_DURATIONS_def)

lemma valid_mode:
  "validName renderingModeName VALID_RENDERING_MODES (Some (JString (renderingModeName m))) = Some m"
  by (cases m) (simp_all add: VALID_RENDERING_MODES_def)

lemma valid_clef: "validName clefName VALID_CLEFS (Some (JString (clefName cl))) = Some cl"
  by (cases cl) (simp_all add: VALID_CLEFS_def)

lemma note_members:
  "getProp (jsonOfNote (Note p oc d ly ac)) ''type'' = Some (JString ''note'')"
  "getProp (jsonOfNote (Note p oc d ly ac)) ''pitch'' = Some (JString (pitchName p))"
  "getProp (jsonOfNote (Note p oc d ly ac)) ''octave'' = Some (JString (octaveName oc))"
  "getProp (jsonOfNote (Note p oc d ly ac)) ''duration'' = Some (JString (durationName d))"
  "getProp (jsonOfNote (Note p oc d ly ac)) ''lyric'' = map_option JString ly"
  "getProp (jsonOfNote (Note p oc d ly ac)) ''accented'' = map_option JBool ac"
  by (cases ly; cases ac; simp)+

lemma validateNote_jsonOfNote:
  "validateNote (jsonOfNote (Note p oc d ly ac)) pidx nidx = Inr (Note p oc d ly ac)"
  unfolding validateNote_def note_members valid_pitch valid_octave valid_duration
  by (cases ly; cases ac; simp)

lemma validateNoteOrRest_jsonOfNote: "validateNoteOrRest (jsonOfNote n) pidx nidx = Inr n"
proof (cases n)
  case (Note p oc d ly ac)
  have "isObjectLike (jsonOfNote (Note p oc d ly ac))" by simp
  with Note show ?thesis
    unfolding validateNoteOrRest_def by (simp only: note_members validateNote_jsonOfNote if_True if_False simp_thms)
next
  case (Rest d)
  then show ?thesis
    using valid_duration [of d] by (simp add: validateNoteOrRest_def)
qed

lemma mapIndexed_map:
  "(\<And>v k. f (g v) k = Inr v) \<Longrightarrow> mapIndexed f (map g vs) i = Inr vs"
  by (induction vs arbitrary: i) simp_all

lemma part_members:
  "getProp (jsonOfPart p) ''notes'' = Some (JArray (map jsonOfNote (part_notes p)))"
  "getProp (jsonOfPart p) ''name'' = map_option JString (name p)"
  by (cases "name p"; simp add: jsonOfPart_def)+

lemma validatePart_jsonOfPart: "validatePart (jsonOfPart p) i = Inr p"
proof -
  have obj: "isObjectLike (jsonOfPart p)" by (simp add: jsonOfPart_def)
  have ns: "mapIndexed (\<lambda>n ni. validateNoteOrRest n i ni) (map jsonOfNote (part_notes p)) 0 = Inr (part_notes p)"
    by (rule mapIndexed_map) (rule validateNoteOrRest_jsonOfNote)
  show ?thesis
    unfolding validatePart_def part_members
    using obj ns by (cases "name p") simp_all
qed

lemma score_members:
  "getProp (jsonOfScore sc) ''title'' = Some (JString (title sc))"
  "getProp (jsonOfScore sc) ''renderingMode'' = Some (JString (renderingModeName (renderingMode sc)))"
  "getProp (jsonOfScore sc) ''clef'' = Some (JString (clefName (clef sc)))"
  "getProp (jsonOfScore sc) ''timeSignature'' =
     Some (JObject [(''beats'', JNumber (beats (timeSignature sc))),
                    (''beatValue'', JNumber (beatValue (timeSignature sc)))])"
  "getProp (jsonOfScore sc) ''parts'' = Some (JArray (map jsonOfPart (parts sc)))"
  "getProp (jsonOfScore sc) ''tempo'' = map_option JNumber (tempo sc)"
  by (cases "tempo sc"; simp add: jsonOfScore_def)+

lemma loadScore_JObject:
  "loadScore (Some (JObject kvs)) =
     (case getProp (JObject kvs) ''title'' of
            Some (JString ttl) \<Rightarrow>
             (case validName renderingModeName VALID_RENDERING_MODES (getProp (JObject kvs) ''renderingMode'') of
                None \<Rightarrow> Inl (InvalidRenderingMode (getProp (JObject kvs) ''renderingMode''))
              | Some mode \<Rightarrow>
             (case validName clefName VALID_CLEFS (getProp (JObject kvs) ''clef'') of
                None \<Rightarrow> Inl (InvalidClef (getProp (JObject kvs) ''clef''))
              | Some cl \<Rightarrow>
             (case getProp (JObject kvs) ''timeSignature'' of
                None \<Rightarrow> Inl TimeSignatureNotObject
              | Some ts \<Rightarrow>
             (if \<not> isObjectLike ts then Inl TimeSignatureNotObject
              else case (getProp ts ''beats'', getProp ts ''beatValue'') of
                (Some (JNumber b), Some (JNumber v)) \<Rightarrow>
                 (case getProp (JObject kvs) ''parts'' of
                    Some (JArray ps) \<Rightarrow>
                     (case mapIndexed validatePart ps 0 of
                        Inl e \<Rightarrow> Inl e
                      | Inr vps \<Rightarrow>
                         (case getProp (JObject kvs) ''tempo'' of
                            None \<Rightarrow>
                              Inr \<lparr>title = ttl, tempo = None, renderingMode = mode,
                                   timeSignature = \<lparr>beats = b, beatValue = v\<rparr>,
                                   clef = cl, parts = vps\<rparr>
                          | Some (JNumber t) \<Rightarrow>
                              Inr \<lparr>title = ttl, tempo = Some t, renderingMode = mode,
                                   timeSignature = \<lparr>beats = b, beatValue = v\<rparr>,
                                   clef = cl, parts = vps\<rparr>
                          | Some other \<Rightarrow> Inl TempoNotNumber))
                  | other \<Rightarrow> Inl PartsNotArray)
              | other \<Rightarrow> Inl TimeSignatureNotNumeric))))
          | other \<Rightarrow> Inl TitleNotString)"
  by (simp add: loadScore_def Let_def)

text \<open>
  C4: for every score, with or without tempo, lyrics, accented flags and part names,
  loading the document that saving writes returns the score itself.
\<close>

theorem loadScore_roundtrip: "loadScore (Some (jsonOfScore sc)) = Inr sc"
proof -
  obtain kvs where kvs: "jsonOfScore sc = JObject kvs"
    by (simp add: jsonOfScore_def)
  have ps: "mapIndexed validatePart (map jsonOfPart (parts sc)) 0 = Inr (parts sc)"
    by (rule mapIndexed_map) (rule validatePart_jsonOfPart)
  have ts: "timeSignature sc = \<lparr>beats = beats (timeSignature sc), beatValue = beatValue (timeSignature sc)\<rparr>"
    by simp
  have "loadScore (Some (JObject kvs)) = Inr sc"
    apply (subst loadScore_JObject)
    apply (simp only: kvs [symmetric] score_members valid_mode valid_clef)
    using ps by (cases "tempo sc") simp_all
  with kvs show ?thesis by simp
qed

subsection \<open>Time signature validation\<close>















end
